theory Spec2Isabelle
  imports Main
begin

section \<open>Data model\<close>

text \<open>
  The persisted entities the views of \<^verbatim>\<open>mayan/apps/linking/views.py\<close> work on.
  Every table is the list of its rows; a row is addressed by its primary key.
\<close>

datatype val = IntV int | StrV string

record document =
  document_pk :: nat
  document_fields :: "string \<rightharpoonup> val"

record document_type =
  document_type_pk :: nat
  document_type_label :: string

record smart_link =
  smart_link_pk :: nat
  smart_link_label :: string

datatype expression = SourceField string | Literal val

type_synonym operator = "val \<Rightarrow> val \<Rightarrow> string + bool"

record smart_link_condition =
  condition_pk :: nat
  condition_smart_link :: nat
  condition_expression :: expression
  condition_operator :: operator
  condition_foreign_document_data :: string
  condition_foreign :: bool
  condition_negated :: bool
  condition_enabled :: bool

datatype permission =
    permission_document_view
  | permission_smart_link_create
  | permission_smart_link_delete
  | permission_smart_link_edit
  | permission_smart_link_view

datatype obj =
    DocumentObj nat
  | DocumentTypeObj nat
  | SmartLinkObj nat
  | SmartLinkConditionObj nat

text \<open>
  The store: one list per model, the rows of the many-to-many relation
  \<^verbatim>\<open>SmartLink.document_types\<close> as pairs (smart link pk, document type pk), and the
  access control grants as triples (user, permission, object).
\<close>

record store =
  Document_objects :: "document list"
  DocumentType_objects :: "document_type list"
  SmartLink_objects :: "smart_link list"
  SmartLinkCondition_objects :: "smart_link_condition list"
  smart_link_document_types :: "(nat \<times> nat) set"
  AccessControlList_objects :: "(nat \<times> permission \<times> obj) set"

record request =
  request_user :: nat
  request_messages :: "string list"

datatype error = Http404 | PermissionDenied

text \<open>
  A queryset is lazy: building it runs no query. \<^verbatim>\<open>evaluate\<close> is what running it
  gives, when the rows are first read: the rows, or the exception the query raises,
  given by its text. \<^verbatim>\<open>Document.objects.none()\<close> is the queryset that evaluates to no
  row.
\<close>

datatype 'a queryset = QuerySet (evaluate: "string + 'a list")

definition Document_objects_none :: "document queryset" where
  "Document_objects_none = QuerySet (Inr [])"

section \<open>Collaborators of the views\<close>

text \<open>
  \<^verbatim>\<open>get_object_or_404(klass, pk)\<close>: the row of the table with that primary key, or the
  not-found failure.
\<close>

definition get_object_or_404 :: "('a \<Rightarrow> nat) \<Rightarrow> 'a list \<Rightarrow> nat \<Rightarrow> error + 'a" where
  "get_object_or_404 pk_of klass pk =
     (case find (\<lambda>row. pk_of row = pk) klass of
        None \<Rightarrow> Inl Http404
      | Some row \<Rightarrow> Inr row)"

text \<open>
  Modelled from the spec: \<^verbatim>\<open>AccessControlList.objects.check_access\<close> of
  \<^verbatim>\<open>mayan.apps.acls.models\<close>, which is not among the sources. The spec gives it as
  \<^verbatim>\<open>check_access(object, permission, user) -> ok | fails\<close>, failing with the
  PermissionDenied signal, over per-object permission grant records.
\<close>

definition check_access :: "store \<Rightarrow> obj \<Rightarrow> permission \<Rightarrow> nat \<Rightarrow> error + unit" where
  "check_access st ob perm usr =
     (if (usr, perm, ob) \<in> AccessControlList_objects st then Inr () else Inl PermissionDenied)"

section \<open>ResolvedSmartLinkView\<close>

record resolved_smart_link_view =
  view_document :: document
  view_smart_link :: smart_link
  view_request :: request

text \<open>
  \<^verbatim>\<open>ResolvedSmartLinkView.dispatch\<close>: both lookups, then both access checks, then the
  parent's dispatch, which is a parameter (the generic list view is not among the
  sources). A raised exception leaves the store as it was.
\<close>

definition ResolvedSmartLinkView_dispatch ::
  "(resolved_smart_link_view \<Rightarrow> store \<Rightarrow> (error + 'r) \<times> store) \<Rightarrow>
   request \<Rightarrow> nat \<Rightarrow> nat \<Rightarrow> store \<Rightarrow> (error + 'r) \<times> store" where
  "ResolvedSmartLinkView_dispatch super_dispatch req document_id smart_link_id st =
     (case get_object_or_404 document_pk (Document_objects st) document_id of
        Inl e \<Rightarrow> (Inl e, st)
      | Inr doc \<Rightarrow>
     (case get_object_or_404 smart_link_pk (SmartLink_objects st) smart_link_id of
        Inl e \<Rightarrow> (Inl e, st)
      | Inr sl \<Rightarrow>
     (case check_access st (DocumentObj (document_pk doc)) permission_document_view
             (request_user req) of
        Inl e \<Rightarrow> (Inl e, st)
      | Inr _ \<Rightarrow>
     (case check_access st (SmartLinkObj (smart_link_pk sl)) permission_smart_link_view
             (request_user req) of
        Inl e \<Rightarrow> (Inl e, st)
      | Inr _ \<Rightarrow>
          super_dispatch
            \<lparr>view_document = doc, view_smart_link = sl, view_request = req\<rparr> st))))"

text \<open>
  \<^verbatim>\<open>ResolvedSmartLinkView.get_document_queryset\<close>. The resolver
  \<^verbatim>\<open>smart_link.get_linked_document_for\<close> is a parameter: the call either raises an
  exception, given here by its text, or returns a queryset, which is not evaluated here.
  The \<^verbatim>\<open>try\<close> block encloses the call only, and the queryset is returned as it is: an
  exception that its evaluation raises is raised later, in the caller that reads the
  rows. The outer handler catches every exception of the call; the inner one catches
  PermissionDenied only, so any other failure of the access check would propagate. The
  result is the queryset and the request with the messages added to it.
\<close>

definition get_document_queryset ::
  "(smart_link \<Rightarrow> document \<Rightarrow> string + document queryset) \<Rightarrow>
   store \<Rightarrow> resolved_smart_link_view \<Rightarrow> error + (document queryset \<times> request)" where
  "get_document_queryset get_linked_document_for st self =
     (case get_linked_document_for (view_smart_link self) (view_document self) of
        Inr queryset \<Rightarrow> Inr (queryset, view_request self)
      | Inl exception \<Rightarrow>
          (case check_access st (SmartLinkObj (smart_link_pk (view_smart_link self)))
                  permission_smart_link_edit (request_user (view_request self)) of
             Inl PermissionDenied \<Rightarrow> Inr (Document_objects_none, view_request self)
           | Inl e \<Rightarrow> Inl e
           | Inr _ \<Rightarrow>
               Inr (Document_objects_none, (view_request self)
                      \<lparr>request_messages :=
                         request_messages (view_request self) @
                         [''Smart link query error: '' @ exception]\<rparr>)))"

section \<open>SetupSmartLinkDocumentTypesView\<close>

record setup_smart_link_document_types_view =
  setup_request :: request
  setup_smart_link_id :: nat

definition get_object :: "store \<Rightarrow> setup_smart_link_document_types_view \<Rightarrow> error + smart_link" where
  "get_object st self =
     get_object_or_404 smart_link_pk (SmartLink_objects st) (setup_smart_link_id self)"

text \<open>
  \<^verbatim>\<open>smart_link.document_types.all()\<close>: the document types joined to the smart link by
  the rows of the many-to-many relation, in the order of the document type table.
\<close>

definition document_types_all :: "store \<Rightarrow> smart_link \<Rightarrow> document_type list" where
  "document_types_all st sl =
     filter (\<lambda>dt. (smart_link_pk sl, document_type_pk dt) \<in> smart_link_document_types st)
       (DocumentType_objects st)"

text \<open>\<^verbatim>\<open>DocumentType.objects.exclude(pk__in=queryset)\<close>.\<close>

definition exclude_pk_in :: "document_type list \<Rightarrow> document_type list \<Rightarrow> document_type list" where
  "exclude_pk_in objects queryset =
     filter (\<lambda>dt. document_type_pk dt \<notin> document_type_pk ` set queryset) objects"

text \<open>
  \<^verbatim>\<open>add\<close> and \<^verbatim>\<open>remove\<close>: the related manager's \<^verbatim>\<open>add\<close> inserts the row of the
  relation unless it is there, its \<^verbatim>\<open>remove\<close> deletes it if it is there.
\<close>

definition add ::
  "setup_smart_link_document_types_view \<Rightarrow> document_type \<Rightarrow> store \<Rightarrow> (error + unit) \<times> store" where
  "add self item st =
     (case get_object st self of
        Inl e \<Rightarrow> (Inl e, st)
      | Inr sl \<Rightarrow>
          (Inr (), st\<lparr>smart_link_document_types :=
                        insert (smart_link_pk sl, document_type_pk item)
                          (smart_link_document_types st)\<rparr>))"

definition remove ::
  "setup_smart_link_document_types_view \<Rightarrow> document_type \<Rightarrow> store \<Rightarrow> (error + unit) \<times> store" where
  "remove self item st =
     (case get_object st self of
        Inl e \<Rightarrow> (Inl e, st)
      | Inr sl \<Rightarrow>
          (Inr (), st\<lparr>smart_link_document_types :=
                        smart_link_document_types st -
                          {(smart_link_pk sl, document_type_pk item)}\<rparr>))"

text \<open>
  \<^verbatim>\<open>left_list\<close> and \<^verbatim>\<open>right_list\<close>. \<^verbatim>\<open>AssignRemoveView.generate_choices\<close> is not
  among the sources and is a parameter: it turns the queryset into the choices shown.
\<close>

definition left_list ::
  "(document_type list \<Rightarrow> 'c) \<Rightarrow> store \<Rightarrow> setup_smart_link_document_types_view \<Rightarrow> error + 'c" where
  "left_list generate_choices st self =
     (case get_object st self of
        Inl e \<Rightarrow> Inl e
      | Inr sl \<Rightarrow>
          Inr (generate_choices
                 (exclude_pk_in (DocumentType_objects st) (document_types_all st sl))))"

definition right_list ::
  "(document_type list \<Rightarrow> 'c) \<Rightarrow> store \<Rightarrow> setup_smart_link_document_types_view \<Rightarrow> error + 'c" where
  "right_list generate_choices st self =
     (case get_object st self of
        Inl e \<Rightarrow> Inl e
      | Inr sl \<Rightarrow> Inr (generate_choices (document_types_all st sl)))"

section \<open>DocumentSmartLinkListView\<close>

definition DocumentSmartLinkListView_dispatch ::
  "(document \<Rightarrow> request \<Rightarrow> store \<Rightarrow> (error + 'r) \<times> store) \<Rightarrow>
   request \<Rightarrow> nat \<Rightarrow> store \<Rightarrow> (error + 'r) \<times> store" where
  "DocumentSmartLinkListView_dispatch super_dispatch req document_id st =
     (case get_object_or_404 document_pk (Document_objects st) document_id of
        Inl e \<Rightarrow> (Inl e, st)
      | Inr doc \<Rightarrow>
     (case check_access st (DocumentObj (document_pk doc)) permission_document_view
             (request_user req) of
        Inl e \<Rightarrow> (Inl e, st)
      | Inr _ \<Rightarrow> super_dispatch doc req st))"

section \<open>The condition views\<close>

definition get_smart_link :: "store \<Rightarrow> nat \<Rightarrow> error + smart_link" where
  "get_smart_link st smart_link_id =
     get_object_or_404 smart_link_pk (SmartLink_objects st) smart_link_id"

text \<open>\<^verbatim>\<open>smart_link.conditions.all()\<close>: the conditions whose foreign key is the smart link.\<close>

definition conditions_all :: "store \<Rightarrow> smart_link \<Rightarrow> smart_link_condition list" where
  "conditions_all st sl =
     filter (\<lambda>c. condition_smart_link c = smart_link_pk sl) (SmartLinkCondition_objects st)"

definition get_source_queryset :: "store \<Rightarrow> nat \<Rightarrow> error + smart_link_condition list" where
  "get_source_queryset st smart_link_id =
     (case get_smart_link st smart_link_id of
        Inl e \<Rightarrow> Inl e
      | Inr sl \<Rightarrow> Inr (conditions_all st sl))"

text \<open>
  \<^verbatim>\<open>SmartLinkConditionCreateView.dispatch\<close>: the access check is on the smart link of
  the URL; the parent's dispatch, which creates the condition, is a parameter.
\<close>

definition SmartLinkConditionCreateView_dispatch ::
  "(request \<Rightarrow> nat \<Rightarrow> store \<Rightarrow> (error + 'r) \<times> store) \<Rightarrow>
   request \<Rightarrow> nat \<Rightarrow> store \<Rightarrow> (error + 'r) \<times> store" where
  "SmartLinkConditionCreateView_dispatch super_dispatch req smart_link_id st =
     (case get_smart_link st smart_link_id of
        Inl e \<Rightarrow> (Inl e, st)
      | Inr sl \<Rightarrow>
     (case check_access st (SmartLinkObj (smart_link_pk sl)) permission_smart_link_edit
             (request_user req) of
        Inl e \<Rightarrow> (Inl e, st)
      | Inr _ \<Rightarrow> super_dispatch req smart_link_id st))"

text \<open>
  Modelled from the spec: \<^verbatim>\<open>get_object\<close> of the generic edit and delete views
  (\<^verbatim>\<open>mayan.apps.common.generics\<close>, not among the sources), for the model
  SmartLinkCondition. The spec: missing SmartLinkCondition primary keys yield a
  standard not-found failure.
\<close>

definition get_condition_object :: "store \<Rightarrow> nat \<Rightarrow> error + smart_link_condition" where
  "get_condition_object st pk =
     get_object_or_404 condition_pk (SmartLinkCondition_objects st) pk"

text \<open>
  \<^verbatim>\<open>SmartLinkConditionEditView.dispatch\<close> and
  \<^verbatim>\<open>SmartLinkConditionDeleteView.dispatch\<close>: the access check is on
  \<^verbatim>\<open>self.get_object().smart_link\<close>, the smart link the condition's foreign key names.
\<close>

definition SmartLinkConditionEditView_dispatch ::
  "(request \<Rightarrow> nat \<Rightarrow> store \<Rightarrow> (error + 'r) \<times> store) \<Rightarrow>
   request \<Rightarrow> nat \<Rightarrow> store \<Rightarrow> (error + 'r) \<times> store" where
  "SmartLinkConditionEditView_dispatch super_dispatch req pk st =
     (case get_condition_object st pk of
        Inl e \<Rightarrow> (Inl e, st)
      | Inr c \<Rightarrow>
     (case check_access st (SmartLinkObj (condition_smart_link c)) permission_smart_link_edit
             (request_user req) of
        Inl e \<Rightarrow> (Inl e, st)
      | Inr _ \<Rightarrow> super_dispatch req pk st))"

definition SmartLinkConditionDeleteView_dispatch ::
  "(request \<Rightarrow> nat \<Rightarrow> store \<Rightarrow> (error + 'r) \<times> store) \<Rightarrow>
   request \<Rightarrow> nat \<Rightarrow> store \<Rightarrow> (error + 'r) \<times> store" where
  "SmartLinkConditionDeleteView_dispatch super_dispatch req pk st =
     (case get_condition_object st pk of
        Inl e \<Rightarrow> (Inl e, st)
      | Inr c \<Rightarrow>
     (case check_access st (SmartLinkObj (condition_smart_link c)) permission_smart_link_edit
             (request_user req) of
        Inl e \<Rightarrow> (Inl e, st)
      | Inr _ \<Rightarrow> super_dispatch req pk st))"

section \<open>The smart link resolver\<close>

text \<open>
  Modelled from the spec: \<^verbatim>\<open>SmartLink.get_linked_document_for\<close> of
  \<^verbatim>\<open>mayan.apps.linking.models\<close>, which is not among the sources. The spec (4.1 and the
  invariant of 3): the input is the source document and the ordered enabled
  conditions of the smart link; a condition that references a field of the source
  document has the source's current value substituted, otherwise a literal is
  compared; the value is compared by the operator with the target's field; the
  negated flag inverts the result; conditions combine with logical AND; if any
  condition raises an evaluation error the resolution fails; the result never
  includes the source document. The spec gives the foreign-document flag no role in
  the resolution. A target without the field does not satisfy the comparison.
\<close>

definition eval_expression :: "document \<Rightarrow> expression \<Rightarrow> string + val" where
  "eval_expression source e =
     (case e of
        Literal v \<Rightarrow> Inr v
      | SourceField f \<Rightarrow>
          (case document_fields source f of
             None \<Rightarrow> Inl (''unknown source field: '' @ f)
           | Some v \<Rightarrow> Inr v))"

text \<open>
  Modelled from the spec: one condition of the absent resolver, evaluated for a target
  document; the negated flag inverts the comparison.
\<close>

definition eval_condition :: "document \<Rightarrow> smart_link_condition \<Rightarrow> document \<Rightarrow> string + bool" where
  "eval_condition source c target =
     (case eval_expression source (condition_expression c) of
        Inl e \<Rightarrow> Inl e
      | Inr v \<Rightarrow>
          (case document_fields target (condition_foreign_document_data c) of
             None \<Rightarrow> Inr (condition_negated c)
           | Some w \<Rightarrow>
               (case condition_operator c v w of
                  Inl e \<Rightarrow> Inl e
                | Inr b \<Rightarrow> Inr (b \<noteq> condition_negated c))))"

text \<open>
  Modelled from the spec: the conditions of the absent resolver combine with logical
  AND, and an evaluation error of any of them is the error of the whole.
\<close>

fun satisfies_all :: "document \<Rightarrow> smart_link_condition list \<Rightarrow> document \<Rightarrow> string + bool" where
  "satisfies_all source [] target = Inr True"
| "satisfies_all source (c # cs) target =
     (case eval_condition source c target of
        Inl e \<Rightarrow> Inl e
      | Inr b \<Rightarrow>
          (case satisfies_all source cs target of
             Inl e \<Rightarrow> Inl e
           | Inr b' \<Rightarrow> Inr (b \<and> b')))"

text \<open>
  Modelled from the spec: the absent resolver keeps the candidates that satisfy all
  conditions, and fails as a whole if the evaluation fails for any candidate.
\<close>

fun resolve :: "document \<Rightarrow> smart_link_condition list \<Rightarrow> document list \<Rightarrow> string + document list" where
  "resolve source cs [] = Inr []"
| "resolve source cs (d # ds) =
     (case satisfies_all source cs d of
        Inl e \<Rightarrow> Inl e
      | Inr b \<Rightarrow>
          (case resolve source cs ds of
             Inl e \<Rightarrow> Inl e
           | Inr r \<Rightarrow> Inr (if b then d # r else r)))"

text \<open>
  Modelled from the spec: the candidate targets of the absent resolver, every document
  but the source (the result never includes the source document).
\<close>

definition candidates :: "store \<Rightarrow> document \<Rightarrow> document list" where
  "candidates st source =
     filter (\<lambda>d. document_pk d \<noteq> document_pk source) (Document_objects st)"

text \<open>
  Modelled from the spec: the input of the absent resolver, the enabled conditions of
  the smart link in their order.
\<close>

definition enabled_conditions :: "store \<Rightarrow> smart_link \<Rightarrow> smart_link_condition list" where
  "enabled_conditions st sl =
     filter (\<lambda>c. condition_smart_link c = smart_link_pk sl \<and> condition_enabled c)
       (SmartLinkCondition_objects st)"

text \<open>
  Modelled from the spec: \<^verbatim>\<open>SmartLink.get_linked_document_for\<close> itself, absent from
  the sources. An evaluation error of a condition is raised by the call; otherwise the
  result is the queryset of the documents resolved.
\<close>

definition get_linked_document_for ::
  "store \<Rightarrow> smart_link \<Rightarrow> document \<Rightarrow> string + document queryset" where
  "get_linked_document_for st sl source =
     (case resolve source (enabled_conditions st sl) (candidates st source) of
        Inl e \<Rightarrow> Inl e
      | Inr ds \<Rightarrow> Inr (QuerySet (Inr ds)))"

text \<open>
  Modelled from the spec: the operator \<^verbatim>\<open>==\<close> of the spec's example; the operators of
  the absent model are not enumerated by the spec.
\<close>

definition op_equals :: operator where
  "op_equals v w = Inr (v = w)"

section \<open>Example data\<close>

text \<open>
  A small store: invoices with a customer id, a memo without one, two document types,
  the smart link "Related Invoices" with the single condition
  \<^verbatim>\<open>source.customer_id == target.customer_id\<close>, a smart link without conditions and
  one whose condition reads a field the source does not have. User 1 may view, user 2
  may also edit, user 3 holds no grant on any smart link or document.
\<close>

definition doc_invoice_a :: document where
  "doc_invoice_a = \<lparr>document_pk = 1, document_fields = [''customer_id'' \<mapsto> IntV 42]\<rparr>"

definition doc_invoice_b :: document where
  "doc_invoice_b = \<lparr>document_pk = 2, document_fields = [''customer_id'' \<mapsto> IntV 42]\<rparr>"

definition doc_invoice_c :: document where
  "doc_invoice_c = \<lparr>document_pk = 3, document_fields = [''customer_id'' \<mapsto> IntV 7]\<rparr>"

definition doc_memo :: document where
  "doc_memo = \<lparr>document_pk = 4, document_fields = Map.empty\<rparr>"

definition doc_invoice_d :: document where
  "doc_invoice_d = \<lparr>document_pk = 5, document_fields = [''customer_id'' \<mapsto> IntV 42]\<rparr>"

definition dt_invoice :: document_type where
  "dt_invoice = \<lparr>document_type_pk = 1, document_type_label = ''Invoice''\<rparr>"

definition dt_memo :: document_type where
  "dt_memo = \<lparr>document_type_pk = 2, document_type_label = ''Memo''\<rparr>"

definition sl_related :: smart_link where
  "sl_related = \<lparr>smart_link_pk = 1, smart_link_label = ''Related Invoices''\<rparr>"

definition sl_plain :: smart_link where
  "sl_plain = \<lparr>smart_link_pk = 2, smart_link_label = ''Everything else''\<rparr>"

definition sl_broken :: smart_link where
  "sl_broken = \<lparr>smart_link_pk = 3, smart_link_label = ''Same supplier''\<rparr>"

definition cond_customer :: smart_link_condition where
  "cond_customer =
     \<lparr>condition_pk = 1, condition_smart_link = 1,
      condition_expression = SourceField ''customer_id'', condition_operator = op_equals,
      condition_foreign_document_data = ''customer_id'', condition_foreign = False,
      condition_negated = False, condition_enabled = True\<rparr>"

definition cond_supplier :: smart_link_condition where
  "cond_supplier =
     \<lparr>condition_pk = 2, condition_smart_link = 3,
      condition_expression = SourceField ''supplier_id'', condition_operator = op_equals,
      condition_foreign_document_data = ''supplier_id'', condition_foreign = False,
      condition_negated = False, condition_enabled = True\<rparr>"

definition example_store :: store where
  "example_store =
     \<lparr>Document_objects = [doc_invoice_a, doc_invoice_b, doc_invoice_c, doc_memo, doc_invoice_d],
      DocumentType_objects = [dt_invoice, dt_memo],
      SmartLink_objects = [sl_related, sl_plain, sl_broken],
      SmartLinkCondition_objects = [cond_customer, cond_supplier],
      smart_link_document_types = {(1, 1)},
      AccessControlList_objects =
        {(1, permission_document_view, DocumentObj 1),
         (1, permission_smart_link_view, SmartLinkObj 1),
         (1, permission_smart_link_view, SmartLinkObj 2),
         (1, permission_smart_link_edit, SmartLinkConditionObj 1),
         (2, permission_document_view, DocumentObj 1),
         (2, permission_smart_link_view, SmartLinkObj 1),
         (2, permission_smart_link_edit, SmartLinkObj 1)}\<rparr>"

definition example_request :: "nat \<Rightarrow> request" where
  "example_request usr = \<lparr>request_user = usr, request_messages = []\<rparr>"

definition example_view :: "smart_link \<Rightarrow> nat \<Rightarrow> resolved_smart_link_view" where
  "example_view sl usr =
     \<lparr>view_document = doc_invoice_a, view_smart_link = sl,
      view_request = example_request usr\<rparr>"

definition example_setup :: "nat \<Rightarrow> nat \<Rightarrow> setup_smart_link_document_types_view" where
  "example_setup usr smart_link_id =
     \<lparr>setup_request = example_request usr, setup_smart_link_id = smart_link_id\<rparr>"

text \<open>The parent's dispatch of the resolved view, reduced to the queryset it lists.\<close>

definition example_list_dispatch ::
  "resolved_smart_link_view \<Rightarrow> store \<Rightarrow> (error + document queryset \<times> request) \<times> store" where
  "example_list_dispatch self st =
     (get_document_queryset (get_linked_document_for st) st self, st)"

text \<open>A resolver whose call fails while the queryset is built.\<close>

definition example_failing_call :: "smart_link \<Rightarrow> document \<Rightarrow> string + document queryset" where
  "example_failing_call sl doc = Inl ''no such field''"

text \<open>
  A resolver whose call succeeds with a queryset whose query fails when it is run, as a
  lookup with a malformed regular expression does.
\<close>

definition example_failing_queryset :: "smart_link \<Rightarrow> document \<Rightarrow> string + document queryset" where
  "example_failing_queryset sl doc = Inr (QuerySet (Inl ''invalid regular expression''))"

text \<open>The parent's dispatch of the delete view, reduced to the deletion of the row.\<close>

definition example_delete_dispatch :: "request \<Rightarrow> nat \<Rightarrow> store \<Rightarrow> (error + unit) \<times> store" where
  "example_delete_dispatch req pk st =
     (Inr (), st\<lparr>SmartLinkCondition_objects :=
                   filter (\<lambda>c. condition_pk c \<noteq> pk) (SmartLinkCondition_objects st)\<rparr>)"

text \<open>The parent's dispatch of the create view, reduced to the insertion of a row.\<close>

definition example_create_dispatch :: "request \<Rightarrow> nat \<Rightarrow> store \<Rightarrow> (error + unit) \<times> store" where
  "example_create_dispatch req smart_link_id st =
     (Inr (), st\<lparr>SmartLinkCondition_objects :=
                   SmartLinkCondition_objects st @
                   [cond_customer\<lparr>condition_pk := 3, condition_smart_link := smart_link_id\<rparr>]\<rparr>)"

text \<open>The parent's dispatch of the edit view, reduced to negating the condition.\<close>

definition example_edit_dispatch :: "request \<Rightarrow> nat \<Rightarrow> store \<Rightarrow> (error + unit) \<times> store" where
  "example_edit_dispatch req pk st =
     (Inr (), st\<lparr>SmartLinkCondition_objects :=
                   map (\<lambda>c. if condition_pk c = pk
                             then c\<lparr>condition_negated := \<not> condition_negated c\<rparr> else c)
                     (SmartLinkCondition_objects st)\<rparr>)"

text \<open>The parent's dispatch of the smart link list of a document, reduced to its title.\<close>

definition example_smart_link_list_dispatch ::
  "document \<Rightarrow> request \<Rightarrow> store \<Rightarrow> (error + nat) \<times> store" where
  "example_smart_link_list_dispatch doc req st = (Inr (document_pk doc), st)"

lemmas example_defs =
  doc_invoice_a_def doc_invoice_b_def doc_invoice_c_def doc_memo_def doc_invoice_d_def
  dt_invoice_def dt_memo_def sl_related_def sl_plain_def sl_broken_def
  cond_customer_def cond_supplier_def example_store_def example_request_def
  example_view_def example_setup_def example_list_dispatch_def example_delete_dispatch_def
  example_create_dispatch_def example_edit_dispatch_def example_smart_link_list_dispatch_def
  example_failing_call_def example_failing_queryset_def

section \<open>Facts about the collaborators\<close>

lemma check_access_cases:
  "check_access st ob perm usr = Inr () \<or> check_access st ob perm usr = Inl PermissionDenied"
  by (simp add: check_access_def)

lemma get_object_or_404_Inl: "get_object_or_404 pk_of klass pk = Inl e \<Longrightarrow> e = Http404"
  by (simp add: get_object_or_404_def split: option.splits)

lemma get_object_or_404_missing:
  "pk \<notin> pk_of ` set klass \<Longrightarrow> get_object_or_404 pk_of klass pk = Inl Http404"
  by (auto simp: get_object_or_404_def find_None_iff split: option.splits)

lemma get_object_after_m2m [simp]:
  "get_object (st\<lparr>smart_link_document_types := r\<rparr>) self = get_object st self"
  by (simp add: get_object_def)

lemma resolve_subset: "resolve source cs ds = Inr r \<Longrightarrow> set r \<subseteq> set ds"
proof (induction ds arbitrary: r)
  case Nil
  then show ?case by simp
next
  case (Cons d ds)
  then show ?case by (auto split: sum.splits if_splits)
qed

lemma resolve_no_conditions: "resolve source [] ds = Inr ds"
  by (induction ds) simp_all

lemma resolve_single_equals:
  assumes "condition_expression c = SourceField f"
    and "condition_operator c = op_equals"
    and "condition_foreign_document_data c = f"
    and "\<not> condition_negated c"
    and "document_fields source f = Some v"
  shows "resolve source [c] ds = Inr (filter (\<lambda>d. document_fields d f = Some v) ds)"
  using assms
  by (induction ds)
     (auto simp: eval_condition_def eval_expression_def op_equals_def split: option.splits)

section \<open>The claims\<close>




text \<open>
  Claim C2, amended. If the call of the resolver raises an error for the smart link and
  the source document, \<^verbatim>\<open>get_document_queryset\<close> returns normally, and the queryset it
  returns is the empty one, whose evaluation gives no row and raises nothing: the
  exception of the call is not propagated and no partial result is returned.
\<close>

theorem resolution_error_empty_result:
  assumes "resolver (view_smart_link self) (view_document self) = Inl exception"
  shows "map_sum id fst (get_document_queryset resolver st self) = Inr Document_objects_none
       \<and> map_sum id (\<lambda>r. evaluate (fst r)) (get_document_queryset resolver st self) =
           Inr (Inr [])"
  using assms check_access_cases [of st "SmartLinkObj (smart_link_pk (view_smart_link self))"
      permission_smart_link_edit "request_user (view_request self)"]
  by (auto simp: get_document_queryset_def Document_objects_none_def)

theorem resolution_error_empty_result_witness:
  "example_failing_call sl_related doc_invoice_a = Inl ''no such field''
   \<and> map_sum id (\<lambda>r. evaluate (fst r))
       (get_document_queryset example_failing_call example_store
          (example_view sl_related 1)) = Inr (Inr [])
   \<and> map_sum id (\<lambda>r. evaluate (fst r))
       (get_document_queryset example_failing_call example_store
          (example_view sl_related 2)) = Inr (Inr [])"
proof -
  have f: "example_failing_call (view_smart_link self) (view_document self) =
      Inl ''no such field''" for self
    by (simp add: example_failing_call_def)
  from resolution_error_empty_result
         [where resolver = example_failing_call and st = example_store
            and self = "example_view sl_related 1", OF f]
       resolution_error_empty_result
         [where resolver = example_failing_call and st = example_store
            and self = "example_view sl_related 2", OF f]
       f [of "example_view sl_related 1"]
  show ?thesis by (simp add: example_view_def)
qed

text \<open>
  The restriction to errors of the call is needed. When the query error is raised by
  the evaluation of the queryset, the view returns the failing queryset: what its
  evaluation gives is the exception, not the empty document set.
\<close>

theorem resolution_error_empty_result_counterexample:
  "example_failing_queryset sl_related doc_invoice_a =
     Inr (QuerySet (Inl ''invalid regular expression''))
   \<and> map_sum id (\<lambda>r. evaluate (fst r))
       (get_document_queryset example_failing_queryset example_store
          (example_view sl_related 3)) = Inr (Inl ''invalid regular expression'')
   \<and> map_sum id (\<lambda>r. evaluate (fst r))
       (get_document_queryset example_failing_queryset example_store
          (example_view sl_related 3)) \<noteq> Inr (Inr [])"
  by (simp add: example_defs get_document_queryset_def)

text \<open>
  Claim C3. With the resolver modelled from the spec, the queryset returned for a smart
  link and a source document never holds a document with the primary key of the source.
  For a smart link whose only enabled condition compares a field of the source with the
  same field of the target by equality, the queryset is exactly the documents of the
  store with the source's value in that field, the source excluded; the spec's example
  is the field \<^verbatim>\<open>customer_id\<close> with the value 42.
\<close>

theorem resolved_excludes_source:
  "(\<forall>qs req'. get_document_queryset (get_linked_document_for st) st self = Inr (qs, req')
       \<longrightarrow> (\<exists>ds. evaluate qs = Inr ds
              \<and> document_pk (view_document self) \<notin> document_pk ` set ds))
   \<and> (\<forall>c f v. enabled_conditions st (view_smart_link self) = [c]
         \<and> condition_expression c = SourceField f
         \<and> condition_operator c = op_equals
         \<and> condition_foreign_document_data c = f
         \<and> \<not> condition_negated c
         \<and> document_fields (view_document self) f = Some v
       \<longrightarrow> get_document_queryset (get_linked_document_for st) st self =
             Inr (QuerySet
                    (Inr (filter (\<lambda>d. document_fields d f = Some v \<and>
                                     document_pk d \<noteq> document_pk (view_document self))
                            (Document_objects st))),
                  view_request self))"
proof (intro conjI allI impI)
  fix qs req'
  assume r: "get_document_queryset (get_linked_document_for st) st self = Inr (qs, req')"
  show "\<exists>ds. evaluate qs = Inr ds
          \<and> document_pk (view_document self) \<notin> document_pk ` set ds"
  proof (cases "resolve (view_document self) (enabled_conditions st (view_smart_link self))
                  (candidates st (view_document self))")
    case (Inl e)
    with r have "qs = Document_objects_none"
      using check_access_cases [of st "SmartLinkObj (smart_link_pk (view_smart_link self))"
          permission_smart_link_edit "request_user (view_request self)"]
      by (auto simp: get_document_queryset_def get_linked_document_for_def)
    then show ?thesis by (simp add: Document_objects_none_def)
  next
    case (Inr ds)
    with r have q: "qs = QuerySet (Inr ds)"
      by (simp add: get_document_queryset_def get_linked_document_for_def)
    from Inr have "set ds \<subseteq> set (candidates st (view_document self))"
      by (rule resolve_subset)
    then have "document_pk (view_document self) \<notin> document_pk ` set ds"
      by (auto simp: candidates_def)
    with q show ?thesis by simp
  qed
next
  fix c f v
  assume h: "enabled_conditions st (view_smart_link self) = [c]
         \<and> condition_expression c = SourceField f
         \<and> condition_operator c = op_equals
         \<and> condition_foreign_document_data c = f
         \<and> \<not> condition_negated c
         \<and> document_fields (view_document self) f = Some v"
  then have "get_linked_document_for st (view_smart_link self) (view_document self) =
      Inr (QuerySet
             (Inr (filter (\<lambda>d. document_fields d f = Some v)
                     (candidates st (view_document self)))))"
    by (simp add: get_linked_document_for_def resolve_single_equals)
  then show "get_document_queryset (get_linked_document_for st) st self =
             Inr (QuerySet
                    (Inr (filter (\<lambda>d. document_fields d f = Some v \<and>
                                     document_pk d \<noteq> document_pk (view_document self))
                            (Document_objects st))),
                  view_request self)"
    by (simp add: get_document_queryset_def candidates_def conj_commute)
qed

theorem resolved_excludes_source_witness:
  "get_document_queryset (get_linked_document_for example_store) example_store
     (example_view sl_related 1) =
     Inr (QuerySet (Inr [doc_invoice_b, doc_invoice_d]), example_request 1)
   \<and> evaluate (QuerySet (Inr [doc_invoice_b, doc_invoice_d])) =
     Inr [doc_invoice_b, doc_invoice_d]
   \<and> document_pk doc_invoice_a \<notin> document_pk ` set [doc_invoice_b, doc_invoice_d]
   \<and> enabled_conditions example_store sl_related = [cond_customer]
   \<and> condition_expression cond_customer = SourceField ''customer_id''
   \<and> condition_operator cond_customer = op_equals
   \<and> condition_foreign_document_data cond_customer = ''customer_id''
   \<and> \<not> condition_negated cond_customer
   \<and> document_fields doc_invoice_a ''customer_id'' = Some (IntV 42)
   \<and> get_document_queryset (get_linked_document_for example_store) example_store
       (example_view sl_related 1) =
     Inr (QuerySet
            (Inr (filter (\<lambda>d. document_fields d ''customer_id'' = Some (IntV 42) \<and>
                             document_pk d \<noteq> document_pk doc_invoice_a)
                    (Document_objects example_store))), example_request 1)"
proof -
  have e: "enabled_conditions example_store sl_related = [cond_customer]"
    by (simp add: example_defs enabled_conditions_def)
  have c: "condition_expression cond_customer = SourceField ''customer_id''
      \<and> condition_operator cond_customer = op_equals
      \<and> condition_foreign_document_data cond_customer = ''customer_id''
      \<and> \<not> condition_negated cond_customer
      \<and> document_fields doc_invoice_a ''customer_id'' = Some (IntV 42)"
    by (simp add: example_defs)
  have v: "view_smart_link (example_view sl_related 1) = sl_related
      \<and> view_document (example_view sl_related 1) = doc_invoice_a
      \<and> view_request (example_view sl_related 1) = example_request 1"
    by (simp add: example_view_def)
  have q: "get_document_queryset (get_linked_document_for example_store) example_store
       (example_view sl_related 1) =
     Inr (QuerySet
            (Inr (filter (\<lambda>d. document_fields d ''customer_id'' = Some (IntV 42) \<and>
                             document_pk d \<noteq> document_pk doc_invoice_a)
                    (Document_objects example_store))), example_request 1)"
    using resolved_excludes_source [of example_store "example_view sl_related 1"] e c v
    by simp
  have l: "filter (\<lambda>d. document_fields d ''customer_id'' = Some (IntV 42) \<and>
                      document_pk d \<noteq> document_pk doc_invoice_a)
            (Document_objects example_store) = [doc_invoice_b, doc_invoice_d]"
    by (simp add: example_defs)
  have n: "document_pk doc_invoice_a \<notin> document_pk ` set [doc_invoice_b, doc_invoice_d]"
    by (simp add: example_defs)
  from q l n e c show ?thesis by simp
qed

text \<open>
  Claim C4. Once the document and the smart link are found, the dispatch of the
  resolved view reaches the parent's dispatch, which computes the queryset, only when
  the user holds the document view permission on the document and the smart link view
  permission on the smart link. If either is missing the result is PermissionDenied
  whatever the parent's dispatch is, and the store is as before.
\<close>

theorem resolved_view_permission_gate:
  assumes "get_object_or_404 document_pk (Document_objects st) document_id = Inr doc"
    and "get_object_or_404 smart_link_pk (SmartLink_objects st) smart_link_id = Inr sl"
  shows "(\<not> (check_access st (DocumentObj (document_pk doc)) permission_document_view
               (request_user req) = Inr ()
            \<and> check_access st (SmartLinkObj (smart_link_pk sl)) permission_smart_link_view
               (request_user req) = Inr ())
          \<longrightarrow> ResolvedSmartLinkView_dispatch super_dispatch req document_id smart_link_id st =
                (Inl PermissionDenied, st))
       \<and> (check_access st (DocumentObj (document_pk doc)) permission_document_view
               (request_user req) = Inr ()
            \<and> check_access st (SmartLinkObj (smart_link_pk sl)) permission_smart_link_view
               (request_user req) = Inr ()
          \<longrightarrow> ResolvedSmartLinkView_dispatch super_dispatch req document_id smart_link_id st =
                super_dispatch
                  \<lparr>view_document = doc, view_smart_link = sl, view_request = req\<rparr> st)"
  using assms
  by (auto simp: ResolvedSmartLinkView_dispatch_def check_access_def)

theorem resolved_view_permission_gate_witness:
  "get_object_or_404 document_pk (Document_objects example_store) 1 = Inr doc_invoice_a
   \<and> get_object_or_404 smart_link_pk (SmartLink_objects example_store) 1 = Inr sl_related
   \<and> get_object_or_404 smart_link_pk (SmartLink_objects example_store) 3 = Inr sl_broken
   \<and> check_access example_store (DocumentObj 1) permission_document_view 3 =
       Inl PermissionDenied
   \<and> ResolvedSmartLinkView_dispatch example_list_dispatch (example_request 3) 1 1
       example_store = (Inl PermissionDenied, example_store)
   \<and> check_access example_store (SmartLinkObj 3) permission_smart_link_view 1 =
       Inl PermissionDenied
   \<and> ResolvedSmartLinkView_dispatch example_list_dispatch (example_request 1) 1 3
       example_store = (Inl PermissionDenied, example_store)
   \<and> check_access example_store (DocumentObj 1) permission_document_view 1 = Inr ()
   \<and> check_access example_store (SmartLinkObj 1) permission_smart_link_view 1 = Inr ()
   \<and> ResolvedSmartLinkView_dispatch example_list_dispatch (example_request 1) 1 1
       example_store =
     (Inr (QuerySet (Inr [doc_invoice_b, doc_invoice_d]), example_request 1), example_store)"
proof -
  have d: "get_object_or_404 document_pk (Document_objects example_store) 1 = Inr doc_invoice_a"
    by (simp add: example_defs get_object_or_404_def)
  have s1: "get_object_or_404 smart_link_pk (SmartLink_objects example_store) 1 = Inr sl_related"
    by (simp add: example_defs get_object_or_404_def)
  have s3: "get_object_or_404 smart_link_pk (SmartLink_objects example_store) 3 = Inr sl_broken"
    by (simp add: example_defs get_object_or_404_def)
  have a: "check_access example_store (DocumentObj 1) permission_document_view 3 =
        Inl PermissionDenied
      \<and> check_access example_store (SmartLinkObj 3) permission_smart_link_view 1 =
        Inl PermissionDenied
      \<and> check_access example_store (DocumentObj 1) permission_document_view 1 = Inr ()
      \<and> check_access example_store (SmartLinkObj 1) permission_smart_link_view 1 = Inr ()"
    by (simp add: example_defs check_access_def)
  have k: "document_pk doc_invoice_a = 1 \<and> smart_link_pk sl_related = 1
      \<and> smart_link_pk sl_broken = 3 \<and> request_user (example_request u) = u" for u
    by (simp add: example_defs)
  have q: "example_list_dispatch
        \<lparr>view_document = doc_invoice_a, view_smart_link = sl_related,
         view_request = example_request 1\<rparr> example_store =
      (Inr (QuerySet (Inr [doc_invoice_b, doc_invoice_d]), example_request 1), example_store)"
    by (simp add: example_defs get_document_queryset_def get_linked_document_for_def
        enabled_conditions_def candidates_def eval_condition_def eval_expression_def
        op_equals_def)
  from resolved_view_permission_gate [OF d s1, of "example_request 3" example_list_dispatch]
       resolved_view_permission_gate [OF d s3, of "example_request 1" example_list_dispatch]
       resolved_view_permission_gate [OF d s1, of "example_request 1" example_list_dispatch]
       d s1 s3 a k q
  show ?thesis by simp
qed

text \<open>
  Claim C5. The create, edit and delete views of a condition check the smart link
  edit permission on the owning smart link: the smart link of the URL for the create
  view, the smart link named by the condition's foreign key for the other two. Without
  it the result is PermissionDenied and the store is unchanged, also when the user is
  granted a permission on the condition object itself; with it the parent's dispatch
  runs.
\<close>

theorem condition_views_check_owning_smart_link:
  "(\<forall>sl. get_smart_link st smart_link_id = Inr sl \<longrightarrow>
      (check_access st (SmartLinkObj (smart_link_pk sl)) permission_smart_link_edit
         (request_user req) = Inl PermissionDenied
       \<longrightarrow> SmartLinkConditionCreateView_dispatch super_dispatch req smart_link_id st =
             (Inl PermissionDenied, st))
    \<and> (check_access st (SmartLinkObj (smart_link_pk sl)) permission_smart_link_edit
         (request_user req) = Inr ()
       \<longrightarrow> SmartLinkConditionCreateView_dispatch super_dispatch req smart_link_id st =
             super_dispatch req smart_link_id st))
 \<and> (\<forall>c. get_condition_object st pk = Inr c \<longrightarrow>
      (check_access st (SmartLinkObj (condition_smart_link c)) permission_smart_link_edit
         (request_user req) = Inl PermissionDenied
       \<longrightarrow> SmartLinkConditionEditView_dispatch super_dispatch req pk st =
             (Inl PermissionDenied, st)
         \<and> SmartLinkConditionDeleteView_dispatch super_dispatch req pk st =
             (Inl PermissionDenied, st)
         \<and> (\<forall>perm. fst (SmartLinkConditionEditView_dispatch super_dispatch req pk
               (st\<lparr>AccessControlList_objects :=
                     insert (request_user req, perm, SmartLinkConditionObj (condition_pk c))
                       (AccessControlList_objects st)\<rparr>)) = Inl PermissionDenied
             \<and> fst (SmartLinkConditionDeleteView_dispatch super_dispatch req pk
               (st\<lparr>AccessControlList_objects :=
                     insert (request_user req, perm, SmartLinkConditionObj (condition_pk c))
                       (AccessControlList_objects st)\<rparr>)) = Inl PermissionDenied))
    \<and> (check_access st (SmartLinkObj (condition_smart_link c)) permission_smart_link_edit
         (request_user req) = Inr ()
       \<longrightarrow> SmartLinkConditionEditView_dispatch super_dispatch req pk st =
             super_dispatch req pk st
         \<and> SmartLinkConditionDeleteView_dispatch super_dispatch req pk st =
             super_dispatch req pk st))"
  by (auto simp: SmartLinkConditionCreateView_dispatch_def SmartLinkConditionEditView_dispatch_def
      SmartLinkConditionDeleteView_dispatch_def check_access_def get_condition_object_def
      split: if_splits)

theorem condition_views_check_owning_smart_link_witness:
  "get_smart_link example_store 1 = Inr sl_related
   \<and> get_condition_object example_store 1 = Inr cond_customer
   \<and> check_access example_store (SmartLinkObj 1) permission_smart_link_edit 1 =
       Inl PermissionDenied
   \<and> SmartLinkConditionCreateView_dispatch example_create_dispatch (example_request 1) 1
       example_store = (Inl PermissionDenied, example_store)
   \<and> SmartLinkConditionEditView_dispatch example_edit_dispatch (example_request 1) 1
       example_store = (Inl PermissionDenied, example_store)
   \<and> SmartLinkConditionDeleteView_dispatch example_delete_dispatch (example_request 1) 1
       example_store = (Inl PermissionDenied, example_store)
   \<and> fst (SmartLinkConditionEditView_dispatch example_edit_dispatch (example_request 1) 1
       (example_store\<lparr>AccessControlList_objects :=
          insert (1, permission_smart_link_delete, SmartLinkConditionObj 1)
            (AccessControlList_objects example_store)\<rparr>)) = Inl PermissionDenied
   \<and> fst (SmartLinkConditionDeleteView_dispatch example_delete_dispatch (example_request 1) 1
       (example_store\<lparr>AccessControlList_objects :=
          insert (1, permission_smart_link_delete, SmartLinkConditionObj 1)
            (AccessControlList_objects example_store)\<rparr>)) = Inl PermissionDenied
   \<and> check_access example_store (SmartLinkObj 1) permission_smart_link_edit 2 = Inr ()
   \<and> SmartLinkConditionCreateView_dispatch example_create_dispatch (example_request 2) 1
       example_store = example_create_dispatch (example_request 2) 1 example_store
   \<and> SmartLinkConditionEditView_dispatch example_edit_dispatch (example_request 2) 1
       example_store = example_edit_dispatch (example_request 2) 1 example_store
   \<and> SmartLinkConditionDeleteView_dispatch example_delete_dispatch (example_request 2) 1
       example_store = example_delete_dispatch (example_request 2) 1 example_store"
proof -
  have s: "get_smart_link example_store 1 = Inr sl_related"
    by (simp add: example_defs get_smart_link_def get_object_or_404_def)
  have c: "get_condition_object example_store 1 = Inr cond_customer"
    by (simp add: example_defs get_condition_object_def get_object_or_404_def)
  have a: "check_access example_store (SmartLinkObj 1) permission_smart_link_edit 1 =
        Inl PermissionDenied
      \<and> check_access example_store (SmartLinkObj 1) permission_smart_link_edit 2 = Inr ()"
    by (simp add: example_defs check_access_def)
  have k: "smart_link_pk sl_related = 1 \<and> condition_smart_link cond_customer = 1
      \<and> condition_pk cond_customer = 1 \<and> request_user (example_request u) = u" for u
    by (simp add: example_defs)
  from condition_views_check_owning_smart_link
         [of example_store 1 "example_request 1" example_create_dispatch 1]
       condition_views_check_owning_smart_link
         [of example_store 1 "example_request 1" example_edit_dispatch 1]
       condition_views_check_owning_smart_link
         [of example_store 1 "example_request 1" example_delete_dispatch 1]
       condition_views_check_owning_smart_link
         [of example_store 1 "example_request 2" example_create_dispatch 1]
       condition_views_check_owning_smart_link
         [of example_store 1 "example_request 2" example_edit_dispatch 1]
       condition_views_check_owning_smart_link
         [of example_store 1 "example_request 2" example_delete_dispatch 1]
       s c a k
  show ?thesis by simp
qed

text \<open>
  Claim C6. Adding a document type to a smart link twice gives the same store, hence
  the same right list, as adding it once; removing is idempotent the same way; removing
  a document type that is not assigned leaves the right list, and the relation itself,
  unchanged.
\<close>

theorem add_remove_idempotent:
  "add self item (snd (add self item st)) = add self item st
   \<and> right_list generate_choices (snd (add self item (snd (add self item st)))) self =
     right_list generate_choices (snd (add self item st)) self
   \<and> remove self item (snd (remove self item st)) = remove self item st
   \<and> (\<forall>sl. get_object st self = Inr sl
          \<and> document_type_pk item \<notin> document_type_pk ` set (document_types_all st sl)
        \<longrightarrow> right_list generate_choices (snd (remove self item st)) self =
            right_list generate_choices st self)
   \<and> (\<forall>sl. get_object st self = Inr sl
          \<and> (smart_link_pk sl, document_type_pk item) \<notin> smart_link_document_types st
        \<longrightarrow> remove self item st = (Inr (), st))"
proof (intro conjI allI impI)
  show a: "add self item (snd (add self item st)) = add self item st"
    by (cases "get_object st self") (simp_all add: add_def)
  show "right_list generate_choices (snd (add self item (snd (add self item st)))) self =
     right_list generate_choices (snd (add self item st)) self"
    by (simp add: a)
  show "remove self item (snd (remove self item st)) = remove self item st"
    by (cases "get_object st self") (simp_all add: remove_def)
next
  fix sl
  assume h: "get_object st self = Inr sl
          \<and> document_type_pk item \<notin> document_type_pk ` set (document_types_all st sl)"
  have "document_type_pk dt \<noteq> document_type_pk item"
    if "dt \<in> set (DocumentType_objects st)"
      and "(smart_link_pk sl, document_type_pk dt) \<in> smart_link_document_types st" for dt
  proof -
    from that have "dt \<in> set (document_types_all st sl)"
      by (simp add: document_types_all_def)
    then have "document_type_pk dt \<in> document_type_pk ` set (document_types_all st sl)"
      by (rule imageI)
    with h show ?thesis by metis
  qed
  then have "document_types_all (snd (remove self item st)) sl = document_types_all st sl"
    using h by (auto simp: remove_def document_types_all_def intro!: filter_cong)
  with h show "right_list generate_choices (snd (remove self item st)) self =
            right_list generate_choices st self"
    by (simp add: right_list_def remove_def)
next
  fix sl
  assume h: "get_object st self = Inr sl
          \<and> (smart_link_pk sl, document_type_pk item) \<notin> smart_link_document_types st"
  then show "remove self item st = (Inr (), st)"
    by (simp add: remove_def)
qed

theorem add_remove_idempotent_witness:
  "get_object example_store (example_setup 2 1) = Inr sl_related
   \<and> document_type_pk dt_memo \<notin>
       document_type_pk ` set (document_types_all example_store sl_related)
   \<and> right_list (map document_type_pk)
       (snd (remove (example_setup 2 1) dt_memo example_store)) (example_setup 2 1) =
     right_list (map document_type_pk) example_store (example_setup 2 1)
   \<and> (smart_link_pk sl_related, document_type_pk dt_memo) \<notin>
       smart_link_document_types example_store
   \<and> remove (example_setup 2 1) dt_memo example_store = (Inr (), example_store)
   \<and> add (example_setup 2 1) dt_memo
       (snd (add (example_setup 2 1) dt_memo example_store)) =
     add (example_setup 2 1) dt_memo example_store
   \<and> right_list (map document_type_pk)
       (snd (add (example_setup 2 1) dt_memo example_store)) (example_setup 2 1) =
     Inr [1, 2]"
proof -
  have g: "get_object example_store (example_setup 2 1) = Inr sl_related"
    by (simp add: example_defs get_object_def get_object_or_404_def)
  have n: "document_type_pk dt_memo \<notin>
       document_type_pk ` set (document_types_all example_store sl_related)"
    by (simp add: example_defs document_types_all_def)
  have m: "(smart_link_pk sl_related, document_type_pk dt_memo) \<notin>
       smart_link_document_types example_store"
    by (simp add: example_defs)
  have r: "right_list (map document_type_pk)
       (snd (add (example_setup 2 1) dt_memo example_store)) (example_setup 2 1) =
     Inr [1, 2]"
    by (simp add: example_defs add_def right_list_def document_types_all_def get_object_def
        get_object_or_404_def)
  from add_remove_idempotent
         [of "example_setup 2 1" dt_memo example_store "map document_type_pk"]
       g n m r
  show ?thesis by simp
qed

text \<open>
  Claim C7. For an existing smart link the left list is generated from exactly the
  document types that are not assigned to it and the right list from exactly those that
  are; the two querysets are disjoint and together hold every document type.
\<close>

theorem left_right_lists_partition:
  assumes "get_object st self = Inr sl"
  shows "left_list generate_choices st self =
           Inr (generate_choices
                  (filter (\<lambda>dt. dt \<notin> set (document_types_all st sl)) (DocumentType_objects st)))
       \<and> right_list generate_choices st self =
           Inr (generate_choices
                  (filter (\<lambda>dt. dt \<in> set (document_types_all st sl)) (DocumentType_objects st)))
       \<and> set (filter (\<lambda>dt. dt \<notin> set (document_types_all st sl)) (DocumentType_objects st)) \<inter>
         set (filter (\<lambda>dt. dt \<in> set (document_types_all st sl)) (DocumentType_objects st)) = {}
       \<and> set (filter (\<lambda>dt. dt \<notin> set (document_types_all st sl)) (DocumentType_objects st)) \<union>
         set (filter (\<lambda>dt. dt \<in> set (document_types_all st sl)) (DocumentType_objects st)) =
         set (DocumentType_objects st)"
proof -
  have l: "exclude_pk_in (DocumentType_objects st) (document_types_all st sl) =
      filter (\<lambda>dt. dt \<notin> set (document_types_all st sl)) (DocumentType_objects st)"
    unfolding exclude_pk_in_def
    by (rule filter_cong) (auto simp: document_types_all_def)
  have r: "document_types_all st sl =
      filter (\<lambda>dt. dt \<in> set (document_types_all st sl)) (DocumentType_objects st)"
    unfolding document_types_all_def
    by (rule filter_cong) auto
  have ll: "left_list generate_choices st self =
      Inr (generate_choices
             (filter (\<lambda>dt. dt \<notin> set (document_types_all st sl)) (DocumentType_objects st)))"
    using assms by (simp add: left_list_def l)
  have rr: "right_list generate_choices st self =
      Inr (generate_choices
             (filter (\<lambda>dt. dt \<in> set (document_types_all st sl)) (DocumentType_objects st)))"
    using assms r by (simp add: right_list_def)
  show ?thesis
    unfolding ll rr by auto
qed

theorem left_right_lists_partition_witness:
  "get_object example_store (example_setup 2 1) = Inr sl_related
   \<and> left_list (map document_type_pk) example_store (example_setup 2 1) = Inr [2]
   \<and> right_list (map document_type_pk) example_store (example_setup 2 1) = Inr [1]"
proof -
  have g: "get_object example_store (example_setup 2 1) = Inr sl_related"
    by (simp add: example_defs get_object_def get_object_or_404_def)
  have a: "document_types_all example_store sl_related = [dt_invoice]"
    by (simp add: example_defs document_types_all_def)
  have l: "filter (\<lambda>dt. dt \<notin> set [dt_invoice]) (DocumentType_objects example_store) = [dt_memo]"
    by (simp add: example_defs)
  have r: "filter (\<lambda>dt. dt \<in> set [dt_invoice]) (DocumentType_objects example_store) =
      [dt_invoice]"
    by (simp add: example_defs)
  have k: "document_type_pk dt_invoice = 1 \<and> document_type_pk dt_memo = 2"
    by (simp add: example_defs)
  from left_right_lists_partition [OF g, of "map document_type_pk"] g k
  show ?thesis unfolding a l r by simp
qed

text \<open>
  Claim C8. With the resolver modelled from the spec, a smart link without conditions
  resolves, for any source document, to the whole candidate set, which is every document
  of the store but the source; the view returns it with the request's messages
  unchanged, so no error is raised or reported.
\<close>

theorem no_conditions_full_set:
  assumes "conditions_all st (view_smart_link self) = []"
  shows "get_document_queryset (get_linked_document_for st) st self =
           Inr (QuerySet (Inr (candidates st (view_document self))), view_request self)
         \<and> set (candidates st (view_document self)) =
           {d \<in> set (Document_objects st). document_pk d \<noteq> document_pk (view_document self)}"
proof -
  have "enabled_conditions st (view_smart_link self) = []"
    using assms by (auto simp: enabled_conditions_def conditions_all_def filter_empty_conv)
  then show ?thesis
    by (simp add: get_document_queryset_def get_linked_document_for_def resolve_no_conditions
        candidates_def)
qed

theorem no_conditions_full_set_witness:
  "conditions_all example_store sl_plain = []
   \<and> get_document_queryset (get_linked_document_for example_store) example_store
       (example_view sl_plain 1) =
     Inr (QuerySet (Inr [doc_invoice_b, doc_invoice_c, doc_memo, doc_invoice_d]),
          example_request 1)"
proof -
  have h: "conditions_all example_store (view_smart_link (example_view sl_plain 1)) = []"
    by (simp add: example_defs conditions_all_def)
  have c: "candidates example_store (view_document (example_view sl_plain 1)) =
      [doc_invoice_b, doc_invoice_c, doc_memo, doc_invoice_d]"
    by (simp add: example_defs candidates_def)
  from no_conditions_full_set [OF h] h c show ?thesis
    by (simp add: example_view_def)
qed

text \<open>
  Claim C9. An operation addressed at a document, a smart link or a condition whose
  primary key is in no row of the table fails with Http404. The store is unchanged and
  the result does not depend on the grants, the user or the parent's dispatch: the
  lookup fails before any access check and before any mutation.
\<close>

theorem missing_pk_not_found:
  "(document_id \<notin> document_pk ` set (Document_objects st)
    \<longrightarrow> ResolvedSmartLinkView_dispatch super_resolved req document_id smart_link_id st =
          (Inl Http404, st))
 \<and> (smart_link_id \<notin> smart_link_pk ` set (SmartLink_objects st)
    \<longrightarrow> ResolvedSmartLinkView_dispatch super_resolved req document_id smart_link_id st =
          (Inl Http404, st))
 \<and> (document_id \<notin> document_pk ` set (Document_objects st)
    \<longrightarrow> DocumentSmartLinkListView_dispatch super_list req document_id st = (Inl Http404, st))
 \<and> (setup_smart_link_id self \<notin> smart_link_pk ` set (SmartLink_objects st)
    \<longrightarrow> get_object st self = Inl Http404
      \<and> add self item st = (Inl Http404, st)
      \<and> remove self item st = (Inl Http404, st)
      \<and> left_list generate_choices st self = Inl Http404
      \<and> right_list generate_choices st self = Inl Http404)
 \<and> (smart_link_id \<notin> smart_link_pk ` set (SmartLink_objects st)
    \<longrightarrow> get_smart_link st smart_link_id = Inl Http404
      \<and> get_source_queryset st smart_link_id = Inl Http404
      \<and> SmartLinkConditionCreateView_dispatch super_condition req smart_link_id st =
          (Inl Http404, st))
 \<and> (pk \<notin> condition_pk ` set (SmartLinkCondition_objects st)
    \<longrightarrow> SmartLinkConditionEditView_dispatch super_condition req pk st = (Inl Http404, st)
      \<and> SmartLinkConditionDeleteView_dispatch super_condition req pk st = (Inl Http404, st))"
  by (auto simp: ResolvedSmartLinkView_dispatch_def DocumentSmartLinkListView_dispatch_def
      get_object_def add_def remove_def left_list_def right_list_def get_smart_link_def
      get_source_queryset_def SmartLinkConditionCreateView_dispatch_def
      SmartLinkConditionEditView_dispatch_def SmartLinkConditionDeleteView_dispatch_def
      get_condition_object_def get_object_or_404_missing split: sum.splits
      dest: get_object_or_404_Inl)

theorem missing_pk_not_found_witness:
  "9 \<notin> document_pk ` set (Document_objects example_store)
   \<and> 9 \<notin> smart_link_pk ` set (SmartLink_objects example_store)
   \<and> 9 \<notin> condition_pk ` set (SmartLinkCondition_objects example_store)
   \<and> ResolvedSmartLinkView_dispatch example_list_dispatch (example_request 2) 9 1
       example_store = (Inl Http404, example_store)
   \<and> ResolvedSmartLinkView_dispatch example_list_dispatch (example_request 2) 1 9
       example_store = (Inl Http404, example_store)
   \<and> DocumentSmartLinkListView_dispatch example_smart_link_list_dispatch (example_request 2) 9
       example_store = (Inl Http404, example_store)
   \<and> get_object example_store (example_setup 2 9) = Inl Http404
   \<and> add (example_setup 2 9) dt_memo example_store = (Inl Http404, example_store)
   \<and> remove (example_setup 2 9) dt_invoice example_store = (Inl Http404, example_store)
   \<and> left_list (map document_type_pk) example_store (example_setup 2 9) = Inl Http404
   \<and> right_list (map document_type_pk) example_store (example_setup 2 9) = Inl Http404
   \<and> get_smart_link example_store 9 = Inl Http404
   \<and> get_source_queryset example_store 9 = Inl Http404
   \<and> SmartLinkConditionCreateView_dispatch example_create_dispatch (example_request 2) 9
       example_store = (Inl Http404, example_store)
   \<and> SmartLinkConditionEditView_dispatch example_edit_dispatch (example_request 2) 9
       example_store = (Inl Http404, example_store)
   \<and> SmartLinkConditionDeleteView_dispatch example_delete_dispatch (example_request 2) 9
       example_store = (Inl Http404, example_store)"
proof -
  have m: "9 \<notin> document_pk ` set (Document_objects example_store)
      \<and> 9 \<notin> smart_link_pk ` set (SmartLink_objects example_store)
      \<and> 9 \<notin> condition_pk ` set (SmartLinkCondition_objects example_store)"
    by (simp add: example_defs)
  have k: "setup_smart_link_id (example_setup 2 9) = 9"
    by (simp add: example_defs)
  from missing_pk_not_found
         [where document_id = 9 and smart_link_id = 1 and pk = 9 and st = example_store
            and req = "example_request 2" and self = "example_setup 2 9" and item = dt_memo
            and generate_choices = "map document_type_pk"
            and super_resolved = example_list_dispatch
            and super_list = example_smart_link_list_dispatch
            and super_condition = example_edit_dispatch]
       missing_pk_not_found
         [where document_id = 1 and smart_link_id = 9 and pk = 9 and st = example_store
            and req = "example_request 2" and self = "example_setup 2 9" and item = dt_invoice
            and generate_choices = "map document_type_pk"
            and super_resolved = example_list_dispatch
            and super_list = example_smart_link_list_dispatch
            and super_condition = example_create_dispatch]
       missing_pk_not_found
         [where document_id = 1 and smart_link_id = 9 and pk = 9 and st = example_store
            and req = "example_request 2" and self = "example_setup 2 9" and item = dt_invoice
            and generate_choices = "map document_type_pk"
            and super_resolved = example_list_dispatch
            and super_list = example_smart_link_list_dispatch
            and super_condition = example_delete_dispatch]
       m k
  show ?thesis by simp
qed

text \<open>
  Claim C10. The left and the right list do not depend on the request, and so not on
  the acting user, nor on the access control grants of the store: any two users are
  shown the same two lists for a smart link.
\<close>

theorem lists_ignore_acting_user:
  "left_list generate_choices (st\<lparr>AccessControlList_objects := grants\<rparr>)
     (self\<lparr>setup_request := req\<rparr>) =
   left_list generate_choices st self
   \<and> right_list generate_choices (st\<lparr>AccessControlList_objects := grants\<rparr>)
     (self\<lparr>setup_request := req\<rparr>) =
   right_list generate_choices st self"
  by (simp add: left_list_def right_list_def get_object_def document_types_all_def
      split: sum.splits)

end
